theory Spec2Isabelle
  imports Main
begin

section \<open>JavaScript values, strings and errors\<close>

text \<open>
  The values that reach the query layer are JSON scalars. \<open>JUndefined\<close> is the value a
  destructured parameter has when its key is absent. Numbers are modelled as integers:
  they are passed through to the parameter list untouched and are only turned into text
  when a number is interpolated into a template literal.
\<close>

datatype jsval = JUndefined | JNull | JBool bool | JNum int | JStr string

text \<open>The two error classes of \<open>expressError\<close> that the model layer throws, with
  their message, and the errors that the store raises on its own.\<close>

datatype error = BadRequestError string | NotFoundError string | StorageError string

fun is_BadRequest :: "error + 'a \<Rightarrow> bool" where
  "is_BadRequest (Inl (BadRequestError m)) = True"
| "is_BadRequest _ = False"

text \<open>Truthiness, as tested by \<open>if (title)\<close>.\<close>

fun truthy :: "jsval \<Rightarrow> bool" where
  "truthy JUndefined = False"
| "truthy JNull = False"
| "truthy (JBool b) = b"
| "truthy (JNum n) = (n \<noteq> 0)"
| "truthy (JStr s) = (s \<noteq> [])"

text \<open>Decimal text of an array length or an index, as \<open>`$${idx + 1}`\<close> produces it.\<close>

definition digit_char :: "nat \<Rightarrow> char" where
  "digit_char d = ''0123456789'' ! d"

fun string_of_nat :: "nat \<Rightarrow> string" where
  "string_of_nat n =
     (if n < 10 then [digit_char n]
      else string_of_nat (n div 10) @ [digit_char (n mod 10)])"

declare string_of_nat.simps [simp del]

definition string_of_int :: "int \<Rightarrow> string" where
  "string_of_int i =
     (if i < 0 then ''-'' @ string_of_nat (nat (- i)) else string_of_nat (nat i))"

text \<open>String conversion of an interpolated value, \<open>`${v}`\<close>.\<close>

fun to_string :: "jsval \<Rightarrow> string" where
  "to_string JUndefined = ''undefined''"
| "to_string JNull = ''null''"
| "to_string (JBool b) = (if b then ''true'' else ''false'')"
| "to_string (JNum n) = string_of_int n"
| "to_string (JStr s) = s"

text \<open>\<open>Array.prototype.join\<close> on an array of strings.\<close>

fun join :: "string \<Rightarrow> string list \<Rightarrow> string" where
  "join sep [] = []"
| "join sep [x] = x"
| "join sep (x # y # ys) = x @ sep @ join sep (y # ys)"

text \<open>A JavaScript object: its own keys with their values, in the order in which
  \<open>Object.keys\<close> lists them. Reading a key that is absent gives \<open>undefined\<close>.\<close>

type_synonym jsobject = "(string \<times> jsval) list"

definition getProp :: "jsobject \<Rightarrow> string \<Rightarrow> jsval" where
  "getProp obj k = (case map_of obj k of None \<Rightarrow> JUndefined | Some v \<Rightarrow> v)"

section \<open>The storage collaborator\<close>

text \<open>
  \<open>db.query(sqlText, params)\<close> belongs to the connection module, which is outside the
  model layer. It is a parameter of every operation: given the store, the statement text
  and the positional parameters it answers with the store afterwards and either a storage
  error or the rows.
\<close>

type_synonym ('db, 'row) query_fn =
  "'db \<Rightarrow> string \<Rightarrow> jsval list \<Rightarrow> 'db \<times> (error + 'row list)"

text \<open>A store that records every statement it is sent, in order, around any store.\<close>

type_synonym statement = "string \<times> jsval list"

definition logged ::
  "('db, 'row) query_fn \<Rightarrow> ('db \<times> statement list, 'row) query_fn" where
  "logged q = (\<lambda>(db, log) sql params.
     (case q db sql params of (db', res) \<Rightarrow> ((db', log @ [(sql, params)]), res)))"

text \<open>The statements on record after a call against such a store.\<close>

abbreviation sent :: "('db \<times> statement list) \<times> 'r \<Rightarrow> statement list" where
  "sent result \<equiv> snd (fst result)"

section \<open>Job.findAll: the job filter builder\<close>

text \<open>The destructured parameter \<open>{ title, minSalary, hasEquity } = {}\<close>.\<close>

record job_filters =
  title :: jsval
  minSalary :: jsval
  hasEquity :: jsval

definition destructure :: "jsobject \<Rightarrow> job_filters" where
  "destructure obj =
     \<lparr>title = getProp obj ''title'', minSalary = getProp obj ''minSalary'',
      hasEquity = getProp obj ''hasEquity''\<rparr>"

definition selectJobs :: string where
  \<open>selectJobs =
     ''SELECT title, salary, equity, company_handle AS "companyHandle"'' @ [CHR 0x0A]
       @ replicate 21 (CHR '' '') @ ''FROM jobs''\<close>

text \<open>The two arrays after the three filter checks: \<open>queryValues\<close> and
  \<open>whereClauses\<close>. Each push of a clause reads \<open>queryValues.length\<close> after the
  value has been pushed.\<close>

definition filterClauses :: "job_filters \<Rightarrow> jsval list \<times> string list" where
  "filterClauses f =
     (let queryValues0 = [];
          whereClauses0 = [];
          queryValues1 =
            (if truthy (title f)
             then queryValues0 @ [JStr (''%'' @ to_string (title f) @ ''%'')]
             else queryValues0);
          whereClauses1 =
            (if truthy (title f)
             then whereClauses0 @ [''title ILIKE $'' @ string_of_nat (length queryValues1)]
             else whereClauses0);
          queryValues2 =
            (if minSalary f \<noteq> JUndefined then queryValues1 @ [minSalary f]
             else queryValues1);
          whereClauses2 =
            (if minSalary f \<noteq> JUndefined
             then whereClauses1 @ [''salary >= $'' @ string_of_nat (length queryValues2)]
             else whereClauses1);
          whereClauses3 =
            (if hasEquity f = JBool True then whereClauses2 @ [''equity > 0'']
             else whereClauses2)
      in (queryValues2, whereClauses3))"

definition queryValues :: "job_filters \<Rightarrow> jsval list" where
  "queryValues f = fst (filterClauses f)"

definition whereClauses :: "job_filters \<Rightarrow> string list" where
  "whereClauses f = snd (filterClauses f)"

text \<open>The filter fragment, \<open>whereClauses.join(" AND ")\<close>.\<close>

definition whereFragment :: "job_filters \<Rightarrow> string" where
  "whereFragment f = join '' AND '' (whereClauses f)"

text \<open>The statement text handed to the store.\<close>

definition findAllQuery :: "job_filters \<Rightarrow> string" where
  "findAllQuery f =
     (let query = selectJobs;
          query = (if length (whereClauses f) > 0
                   then query @ '' WHERE '' @ whereFragment f else query)
      in query @ '' ORDER BY title'')"

definition findAll ::
  "('db, 'row) query_fn \<Rightarrow> 'db \<Rightarrow> jsobject \<Rightarrow> 'db \<times> (error + 'row list)" where
  "findAll q db obj =
     (let f = destructure obj in q db (findAllQuery f) (queryValues f))"

section \<open>GET /jobs: validation and conversion of the query string\<close>

text \<open>
  The route handler receives \<open>req.query\<close>, whose values are strings, rejects keys
  outside the allowed list and malformed values, and builds \<open>sanitizedFilters\<close> in the
  order title, minSalary, hasEquity. The numeric conversion \<open>+minSalary\<close> is a
  parameter: \<open>None\<close> stands for \<open>NaN\<close>.
\<close>

definition allowedFilters :: "string list" where
  "allowedFilters = [''title'', ''minSalary'', ''hasEquity'']"

definition sanitizeFilters :: "(jsval \<Rightarrow> int option) \<Rightarrow> jsobject \<Rightarrow> error + jsobject" where
  "sanitizeFilters toNumber filters =
     (let invalidFilters = filter (\<lambda>key. key \<notin> set allowedFilters) (map fst filters);
          ttl = getProp filters ''title'';
          minSal = getProp filters ''minSalary'';
          hasEq = getProp filters ''hasEquity''
      in if length invalidFilters > 0
         then Inl (BadRequestError (''Invalid filters: '' @ join '', '' invalidFilters
                @ ''. Allowed filters are: '' @ join '', '' allowedFilters))
         else if minSal \<noteq> JUndefined \<and> toNumber minSal = None
         then Inl (BadRequestError ''minSalary must be a valid number'')
         else if hasEq \<noteq> JUndefined \<and> \<not> (hasEq = JStr ''true'' \<or> hasEq = JStr ''false'')
         then Inl (BadRequestError (''hasEquity must be '' @ [CHR 0x27] @ ''true'' @ [CHR 0x27]
                @ '' or '' @ [CHR 0x27] @ ''false'' @ [CHR 0x27]))
         else Inr ((if truthy ttl then [(''title'', ttl)] else [])
                @ (case (minSal \<noteq> JUndefined, toNumber minSal) of
                     (True, Some n) \<Rightarrow> [(''minSalary'', JNum n)] | _ \<Rightarrow> [])
                @ (if hasEq = JStr ''true'' then [(''hasEquity'', JBool True)] else [])))"

definition getJobs ::
  "(jsval \<Rightarrow> int option) \<Rightarrow> ('db, 'row) query_fn \<Rightarrow> 'db \<Rightarrow> jsobject
     \<Rightarrow> 'db \<times> (error + 'row list)" where
  "getJobs toNumber q db filters =
     (case sanitizeFilters toNumber filters of
        Inl err \<Rightarrow> (db, Inl err)
      | Inr sanitizedFilters \<Rightarrow> findAll q db sanitizedFilters)"

section \<open>The partial-update builder\<close>

type_synonym column_map = "string \<rightharpoonup> string"

record fragment =
  setCols :: string
  "values" :: "jsval list"

text \<open>Modelled from the spec: the column resolution of \<open>sqlForPartialUpdate\<close>
  (\<open>helpers/sql\<close>, of which only the tests are at hand): the storage column is
  \<open>columnMap[name]\<close> if present, else \<open>name\<close> itself.\<close>

definition resolveColumn :: "column_map \<Rightarrow> string \<Rightarrow> string" where
  "resolveColumn jsToSql name = (case jsToSql name of Some col \<Rightarrow> col | None \<Rightarrow> name)"

text \<open>Modelled from the spec: the pieces \<open>sqlForPartialUpdate\<close> emits. The fields are
  visited in their given order; the field at position \<open>i\<close> (1-based) emits its resolved
  column between double quotes, followed by \<open>=$i\<close>.\<close>

fun setPieces :: "column_map \<Rightarrow> nat \<Rightarrow> jsobject \<Rightarrow> string list" where
  \<open>setPieces jsToSql i [] = []\<close>
| \<open>setPieces jsToSql i ((name, v) # rest) =
     (''"'' @ resolveColumn jsToSql name @ ''"=$'' @ string_of_nat i)
       # setPieces jsToSql (Suc i) rest\<close>

text \<open>Modelled from the spec: \<open>sqlForPartialUpdate(dataToUpdate, jsToSql)\<close> of
  \<open>helpers/sql\<close>. An empty field set is the one failure, a BadRequestError (whose
  message neither the spec nor the tests give; it is left empty). Otherwise the pieces are
  joined with a comma and a space, and the values are accumulated in the same order,
  unchanged.\<close>

definition sqlForPartialUpdate :: "jsobject \<Rightarrow> column_map \<Rightarrow> error + fragment" where
  "sqlForPartialUpdate dataToUpdate jsToSql =
     (if dataToUpdate = [] then Inl (BadRequestError [])
      else Inr \<lparr>setCols = join '', '' (setPieces jsToSql 1 dataToUpdate),
                values = map snd dataToUpdate\<rparr>)"

section \<open>Job.update\<close>

text \<open>The template literal \<open>querySql\<close>, with its two interpolations.\<close>

definition updateSql :: "string \<Rightarrow> string \<Rightarrow> string" where
  \<open>updateSql setCols' titleVarIdx =
     ''UPDATE jobs '' @ [CHR 0x0A]
     @ replicate 22 (CHR '' '') @ ''SET '' @ setCols' @ '' '' @ [CHR 0x0A]
     @ replicate 22 (CHR '' '') @ ''WHERE title = '' @ titleVarIdx @ '' '' @ [CHR 0x0A]
     @ replicate 22 (CHR '' '') @ ''RETURNING title, '' @ [CHR 0x0A]
     @ replicate 32 (CHR '' '') @ ''salary, '' @ [CHR 0x0A]
     @ replicate 32 (CHR '' '') @ ''equity, '' @ [CHR 0x0A]
     @ replicate 32 (CHR '' '') @ ''company_handle AS "companyHandle"''\<close>

definition update ::
  "('db, 'row) query_fn \<Rightarrow> 'db \<Rightarrow> jsval \<Rightarrow> jsobject \<Rightarrow> 'db \<times> (error + 'row)" where
  "update q db ttl data =
     (case sqlForPartialUpdate data [''companyHandle'' \<mapsto> ''company_handle''] of
        Inl err \<Rightarrow> (db, Inl err)
      | Inr frag \<Rightarrow>
          (let titleVarIdx = ''$'' @ string_of_nat (length (values frag) + 1);
               querySql = updateSql (setCols frag) titleVarIdx
           in case q db querySql (values frag @ [ttl]) of
                (db', Inl err) \<Rightarrow> (db', Inl err)
              | (db', Inr rows) \<Rightarrow>
                  (case rows of
                     [] \<Rightarrow> (db', Inl (NotFoundError (''No job: '' @ to_string ttl)))
                   | job # _ \<Rightarrow> (db', Inr job))))"

section \<open>Job.create\<close>

definition duplicateCheckSql :: string where
  "duplicateCheckSql =
     ''SELECT title, company_handle'' @ [CHR 0x0A]
     @ replicate 7 (CHR '' '') @ ''FROM jobs'' @ [CHR 0x0A]
     @ replicate 7 (CHR '' '') @ ''WHERE title = $1 AND company_handle = $2''"

definition insertSql :: string where
  \<open>insertSql =
     ''INSERT INTO jobs'' @ [CHR 0x0A]
     @ replicate 7 (CHR '' '') @ ''(title, salary, equity, company_handle)'' @ [CHR 0x0A]
     @ replicate 7 (CHR '' '') @ ''VALUES ($1, $2, $3, $4)'' @ [CHR 0x0A]
     @ replicate 7 (CHR '' '')
     @ ''RETURNING title, salary, equity, company_handle AS "companyHandle"''\<close>


text \<open>An in-memory jobs table that answers the two statements of \<open>create\<close>: rows are
  (title, salary, equity, company_handle); the SELECT returns the matching rows and leaves
  the table as it is, the INSERT appends the row and returns it. Any other statement
  finds no row.\<close>

type_synonym job_row = "jsval \<times> jsval \<times> jsval \<times> jsval"

definition tableQuery :: "(job_row list, job_row) query_fn" where
  "tableQuery tbl sql params =
     (if sql = duplicateCheckSql then
        (case params of
           [t, c] \<Rightarrow> (tbl, Inr (filter (\<lambda>(t', s', e', c'). t' = t \<and> c' = c) tbl))
         | _ \<Rightarrow> (tbl, Inr []))
      else if sql = insertSql then
        (case params of
           [t, s, e, c] \<Rightarrow> (tbl @ [(t, s, e, c)], Inr [(t, s, e, c)])
         | _ \<Rightarrow> (tbl, Inr []))
      else (tbl, Inr []))"

section \<open>Vocabulary of the properties\<close>

text \<open>The keys of a filter object that are present, that is, whose value is not
  \<open>undefined\<close>, among the given keys and in their order.\<close>

definition presentKeys :: "jsobject \<Rightarrow> string list \<Rightarrow> string list" where
  "presentKeys obj ks = filter (\<lambda>k. getProp obj k \<noteq> JUndefined) ks"

text \<open>Whether a text contains another, as \<open>String.prototype.includes\<close> tells.\<close>

fun startsWith :: "string \<Rightarrow> string \<Rightarrow> bool" where
  "startsWith s [] = True"
| "startsWith [] (p # ps) = False"
| "startsWith (c # cs) (p # ps) = (c = p \<and> startsWith cs ps)"

fun containsText :: "string \<Rightarrow> string \<Rightarrow> bool" where
  "containsText [] p = (p = [])"
| "containsText (c # cs) p = (startsWith (c # cs) p \<or> containsText cs p)"

text \<open>
  The placeholders of a statement text, read as the store's lexer reads them: a dollar
  sign followed by decimal digits, outside a double-quoted identifier. The result lists
  their numbers in the order of the text.
\<close>

definition is_digit :: "char \<Rightarrow> bool" where
  "is_digit c = (c \<in> set ''0123456789'')"

definition digit_val :: "char \<Rightarrow> nat" where
  "digit_val c = length (takeWhile (\<lambda>d. d \<noteq> c) ''0123456789'')"

fun readNum :: "nat \<Rightarrow> string \<Rightarrow> nat" where
  "readNum acc [] = acc"
| "readNum acc (c # cs) = (if is_digit c then readNum (10 * acc + digit_val c) cs else acc)"

fun placeholders :: "bool \<Rightarrow> string \<Rightarrow> nat list" where
  "placeholders inQuotes [] = []"
| "placeholders inQuotes (c # cs) =
     (if c = CHR 0x22 then placeholders (\<not> inQuotes) cs
      else if \<not> inQuotes \<and> c = CHR ''$'' \<and> cs \<noteq> [] \<and> is_digit (hd cs)
      then readNum 0 cs # placeholders inQuotes cs
      else placeholders inQuotes cs)"

declare placeholders.simps(2) [simp del]

text \<open>The invariant of a parameterized fragment: the placeholders of the text are
  \<open>$1\<close>, ..., \<open>$n\<close> in this order, where \<open>n\<close> is the number of parameters.\<close>

definition wellParameterized :: "string \<Rightarrow> jsval list \<Rightarrow> bool" where
  "wellParameterized text params = (placeholders False text = [1..<length params + 1])"

text \<open>Field sets whose resolved column names can stand between double quotes as they
  are: none of them contains a double quote.\<close>

definition quotableColumns :: "column_map \<Rightarrow> jsobject \<Rightarrow> bool" where
  "quotableColumns jsToSql dataToUpdate =
     list_all (\<lambda>(name, v). CHR 0x22 \<notin> set (resolveColumn jsToSql name)) dataToUpdate"

section \<open>Basic facts\<close>

lemma string_of_nat_1: "string_of_nat (Suc 0) = ''1''"
  by (simp add: string_of_nat.simps digit_char_def)

lemma string_of_nat_2: "string_of_nat (Suc (Suc 0)) = ''2''"
  by (simp add: string_of_nat.simps digit_char_def)

lemma string_of_nat_3: "string_of_nat (Suc (Suc (Suc 0))) = ''3''"
  by (simp add: string_of_nat.simps digit_char_def)

lemma getProp_absent: "k \<notin> fst ` set obj \<Longrightarrow> getProp obj k = JUndefined"
  by (simp add: getProp_def map_of_eq_None_iff [THEN iffD2])

lemma getProp_cong: "map_of obj' = map_of obj \<Longrightarrow> getProp obj' k = getProp obj k"
  by (simp add: getProp_def)

lemma destructure_cong: "map_of obj' = map_of obj \<Longrightarrow> destructure obj' = destructure obj"
  using getProp_cong [of obj' obj] by (simp add: destructure_def)

lemma map_of_remove_key:
  "map_of (filter (\<lambda>kv. fst kv \<noteq> a) obj) k = (if k = a then None else map_of obj k)"
  by (induction obj) auto

lemma getProp_remove_key:
  "getProp (filter (\<lambda>kv. fst kv \<noteq> a) obj) k
     = (if k = a then JUndefined else getProp obj k)"
  by (simp add: getProp_def map_of_remove_key)

section \<open>Properties of the job filter builder\<close>

text \<open>The three checks of \<open>findAll\<close> in closed form: which values and which clauses
  each of them contributes.\<close>

lemma filterClauses_eq:
  "filterClauses f =
     ((if truthy (title f) then [JStr (''%'' @ to_string (title f) @ ''%'')] else [])
        @ (if minSalary f \<noteq> JUndefined then [minSalary f] else []),
      (if truthy (title f) then [''title ILIKE $1''] else [])
        @ (if minSalary f \<noteq> JUndefined
           then [if truthy (title f) then ''salary >= $2'' else ''salary >= $1''] else [])
        @ (if hasEquity f = JBool True then [''equity > 0''] else []))"
  by (simp add: filterClauses_def Let_def string_of_nat_1 string_of_nat_2)

text \<open>Two objects with the same keys and values, in whatever order they list them, are
  sent to the store as the same statement.\<close>

lemma findAll_reorder:
  assumes "distinct (map fst obj)" and "distinct (map fst obj')" and "set obj' = set obj"
  shows "findAll q db obj' = findAll q db obj"
proof -
  have "map_of obj' = map_of obj"
    using map_of_inject_set [OF assms(2) assms(1)] assms(3) by blast
  then show ?thesis
    using destructure_cong [of obj' obj] by (simp add: findAll_def)
qed

lemma sanitize_hasEquity:
  assumes "sanitizeFilters toNumber filters = Inr s"
  shows "getProp s ''hasEquity''
           = (if getProp filters ''hasEquity'' = JStr ''true'' then JBool True else JUndefined)"
  using assms
  by (auto simp: sanitizeFilters_def Let_def getProp_def
      split: if_splits option.splits bool.splits)

text \<open>
  C4. For the job filters \<open>{title: 'en', minSalary: 2}\<close>, and for any non-empty title
  substring \<open>s\<close> and minimum salary \<open>n\<close> in their place, the builder produces the two
  clauses \<open>title ILIKE $1\<close> and \<open>salary >= $2\<close>, title first, joined by \<open> AND \<close>,
  with the parameters \<open>%s%\<close> and \<open>n\<close>; the statement sent to the store carries that
  fragment after \<open>WHERE\<close>.
\<close>

theorem title_minSalary_filter:
  assumes "s \<noteq> []"
  shows "whereClauses \<lparr>title = JStr s, minSalary = JNum n, hasEquity = JUndefined\<rparr>
           = [''title ILIKE $1'', ''salary >= $2'']
       \<and> whereFragment \<lparr>title = JStr s, minSalary = JNum n, hasEquity = JUndefined\<rparr>
           = ''title ILIKE $1 AND salary >= $2''
       \<and> queryValues \<lparr>title = JStr s, minSalary = JNum n, hasEquity = JUndefined\<rparr>
           = [JStr (''%'' @ s @ ''%''), JNum n]
       \<and> findAll q db [(''title'', JStr s), (''minSalary'', JNum n)]
           = q db (selectJobs @ '' WHERE title ILIKE $1 AND salary >= $2 ORDER BY title'')
               [JStr (''%'' @ s @ ''%''), JNum n]"
  using assms
  by (simp add: whereClauses_def whereFragment_def queryValues_def filterClauses_eq
      findAll_def findAllQuery_def destructure_def getProp_def)

theorem title_minSalary_filter_witness:
  "''en'' \<noteq> []
   \<and> whereClauses \<lparr>title = JStr ''en'', minSalary = JNum 2, hasEquity = JUndefined\<rparr>
           = [''title ILIKE $1'', ''salary >= $2'']
   \<and> whereFragment \<lparr>title = JStr ''en'', minSalary = JNum 2, hasEquity = JUndefined\<rparr>
           = ''title ILIKE $1 AND salary >= $2''
   \<and> queryValues \<lparr>title = JStr ''en'', minSalary = JNum 2, hasEquity = JUndefined\<rparr>
           = [JStr ''%en%'', JNum 2]
   \<and> findAll tableQuery [] [(''title'', JStr ''en''), (''minSalary'', JNum 2)]
           = tableQuery []
               (selectJobs @ '' WHERE title ILIKE $1 AND salary >= $2 ORDER BY title'')
               [JStr ''%en%'', JNum 2]"
  using title_minSalary_filter [where s = "''en''" and n = 2 and q = tableQuery and db = "[]"]
  by simp

text \<open>
  C5. The clause \<open>equity > 0\<close> is emitted exactly when \<open>hasEquity\<close> is the boolean
  \<open>true\<close>. For every filter record whose \<open>hasEquity\<close> is anything else (false, absent),
  the values, the clauses and the statement are those of the same record without
  \<open>hasEquity\<close>; for a filter object, they are those of the object with the key removed.
  The route hands on \<open>hasEquity\<close> only for the query string value \<open>'true'\<close>.
\<close>

theorem hasEquity_only_when_true:
  "(''equity > 0'' \<in> set (whereClauses f)) = (hasEquity f = JBool True)
   \<and> (hasEquity f \<noteq> JBool True \<longrightarrow>
        filterClauses f = filterClauses (f\<lparr>hasEquity := JUndefined\<rparr>)
        \<and> findAllQuery f = findAllQuery (f\<lparr>hasEquity := JUndefined\<rparr>))
   \<and> (getProp obj ''hasEquity'' \<noteq> JBool True \<longrightarrow>
        findAll q db obj = findAll q db (filter (\<lambda>kv. fst kv \<noteq> ''hasEquity'') obj))
   \<and> (sanitizeFilters toNumber filters = Inr s \<longrightarrow>
        hasEquity (destructure s)
          = (if getProp filters ''hasEquity'' = JStr ''true'' then JBool True else JUndefined))"
proof -
  have a: "(''equity > 0'' \<in> set (whereClauses f)) = (hasEquity f = JBool True)"
    by (simp add: whereClauses_def filterClauses_eq)
  have b: "hasEquity f \<noteq> JBool True \<longrightarrow>
        filterClauses f = filterClauses (f\<lparr>hasEquity := JUndefined\<rparr>)
        \<and> findAllQuery f = findAllQuery (f\<lparr>hasEquity := JUndefined\<rparr>)"
    by (simp add: findAllQuery_def whereFragment_def whereClauses_def filterClauses_eq)
  have c: "getProp obj ''hasEquity'' \<noteq> JBool True \<longrightarrow>
        findAll q db obj = findAll q db (filter (\<lambda>kv. fst kv \<noteq> ''hasEquity'') obj)"
    by (simp add: findAll_def Let_def findAllQuery_def whereFragment_def whereClauses_def
        queryValues_def filterClauses_eq destructure_def getProp_remove_key)
  have d: "sanitizeFilters toNumber filters = Inr s \<longrightarrow>
        hasEquity (destructure s)
          = (if getProp filters ''hasEquity'' = JStr ''true'' then JBool True else JUndefined)"
    using sanitize_hasEquity [of toNumber filters s] by (simp add: destructure_def)
  show ?thesis by (intro conjI; fact a b c d)
qed

theorem hasEquity_only_when_true_witness:
  "(''equity > 0'' \<in> set (whereClauses
        \<lparr>title = JStr ''en'', minSalary = JUndefined, hasEquity = JBool False\<rparr>))
     = (JBool False = JBool True)
   \<and> JBool False \<noteq> JBool True
   \<and> filterClauses \<lparr>title = JStr ''en'', minSalary = JUndefined, hasEquity = JBool False\<rparr>
       = filterClauses \<lparr>title = JStr ''en'', minSalary = JUndefined, hasEquity = JUndefined\<rparr>
   \<and> findAllQuery \<lparr>title = JStr ''en'', minSalary = JUndefined, hasEquity = JBool False\<rparr>
       = findAllQuery \<lparr>title = JStr ''en'', minSalary = JUndefined, hasEquity = JUndefined\<rparr>
   \<and> getProp [(''hasEquity'', JBool False), (''title'', JStr ''en'')] ''hasEquity'' \<noteq> JBool True
   \<and> findAll tableQuery [] [(''hasEquity'', JBool False), (''title'', JStr ''en'')]
       = findAll tableQuery [] [(''title'', JStr ''en'')]
   \<and> sanitizeFilters (\<lambda>v. None) [(''hasEquity'', JStr ''false'')] = Inr []
   \<and> hasEquity (destructure []) = JUndefined"
  using hasEquity_only_when_true
    [where f = "\<lparr>title = JStr ''en'', minSalary = JUndefined, hasEquity = JBool False\<rparr>"
       and obj = "[(''hasEquity'', JBool False), (''title'', JStr ''en'')]"
       and q = tableQuery and db = "[]" and toNumber = "\<lambda>v. None"
       and filters = "[(''hasEquity'', JStr ''false'')]" and s = "[]"]
  by (simp add: getProp_def sanitizeFilters_def allowedFilters_def)

text \<open>
  C6. For every filter object in which each present key is active (a present title is
  truthy, a present \<open>hasEquity\<close> is \<open>true\<close>): there is exactly one clause per present
  key and exactly one parameter per present key that takes one (title, minSalary); the
  fragment is the clauses joined with \<open> AND \<close>; the clauses and the parameters come in
  the fixed order title, minSalary, hasEquity, the placeholder of each clause being the
  number of parameters pushed so far; listing the same keys and values in another
  order gives the same statement; and the statement sent to the store carries exactly
  these clauses, joined, after \<open>WHERE\<close> (or no \<open>WHERE\<close> if there is none), with
  exactly these parameters.
\<close>

theorem filter_composition:
  assumes "getProp obj ''title'' \<noteq> JUndefined \<longrightarrow> truthy (getProp obj ''title'')"
    and "getProp obj ''hasEquity'' \<noteq> JUndefined \<longrightarrow> getProp obj ''hasEquity'' = JBool True"
  shows "length (whereClauses (destructure obj))
           = length (presentKeys obj [''title'', ''minSalary'', ''hasEquity''])
       \<and> length (queryValues (destructure obj))
           = length (presentKeys obj [''title'', ''minSalary''])
       \<and> whereFragment (destructure obj) = join '' AND '' (whereClauses (destructure obj))
       \<and> whereClauses (destructure obj)
           = (if getProp obj ''title'' \<noteq> JUndefined then [''title ILIKE $1''] else [])
             @ (if getProp obj ''minSalary'' \<noteq> JUndefined
                then [''salary >= $''
                        @ string_of_nat (length (presentKeys obj [''title'', ''minSalary'']))]
                else [])
             @ (if getProp obj ''hasEquity'' \<noteq> JUndefined then [''equity > 0''] else [])
       \<and> queryValues (destructure obj)
           = (if getProp obj ''title'' \<noteq> JUndefined
              then [JStr (''%'' @ to_string (getProp obj ''title'') @ ''%'')] else [])
             @ (if getProp obj ''minSalary'' \<noteq> JUndefined
                then [getProp obj ''minSalary''] else [])
       \<and> (distinct (map fst obj) \<and> distinct (map fst obj') \<and> set obj' = set obj
            \<longrightarrow> findAll q db obj' = findAll q db obj)
       \<and> findAllQuery (destructure obj)
           = selectJobs
             @ (if whereClauses (destructure obj) = [] then []
                else '' WHERE '' @ join '' AND '' (whereClauses (destructure obj)))
             @ '' ORDER BY title''
       \<and> findAll q db obj
           = q db (findAllQuery (destructure obj)) (queryValues (destructure obj))"
proof -
  have t: "truthy (getProp obj ''title'') = (getProp obj ''title'' \<noteq> JUndefined)"
    using assms(1) by (cases "getProp obj ''title''") auto
  have e: "(getProp obj ''hasEquity'' = JBool True) = (getProp obj ''hasEquity'' \<noteq> JUndefined)"
    using assms(2) by auto
  have f: "filterClauses (destructure obj) =
     ((if getProp obj ''title'' \<noteq> JUndefined
       then [JStr (''%'' @ to_string (getProp obj ''title'') @ ''%'')] else [])
        @ (if getProp obj ''minSalary'' \<noteq> JUndefined then [getProp obj ''minSalary''] else []),
      (if getProp obj ''title'' \<noteq> JUndefined then [''title ILIKE $1''] else [])
        @ (if getProp obj ''minSalary'' \<noteq> JUndefined
           then [if getProp obj ''title'' \<noteq> JUndefined
                 then ''salary >= $2'' else ''salary >= $1''] else [])
        @ (if getProp obj ''hasEquity'' \<noteq> JUndefined then [''equity > 0''] else []))"
    unfolding filterClauses_eq by (simp add: destructure_def t e)
  have 1: "length (whereClauses (destructure obj))
           = length (presentKeys obj [''title'', ''minSalary'', ''hasEquity''])"
    by (simp add: whereClauses_def f presentKeys_def)
  have 2: "length (queryValues (destructure obj))
           = length (presentKeys obj [''title'', ''minSalary''])"
    by (simp add: queryValues_def f presentKeys_def)
  have 3: "whereFragment (destructure obj) = join '' AND '' (whereClauses (destructure obj))"
    by (simp add: whereFragment_def)
  have 4: "whereClauses (destructure obj)
           = (if getProp obj ''title'' \<noteq> JUndefined then [''title ILIKE $1''] else [])
             @ (if getProp obj ''minSalary'' \<noteq> JUndefined
                then [''salary >= $''
                        @ string_of_nat (length (presentKeys obj [''title'', ''minSalary'']))]
                else [])
             @ (if getProp obj ''hasEquity'' \<noteq> JUndefined then [''equity > 0''] else [])"
    by (simp add: whereClauses_def f presentKeys_def string_of_nat_1 string_of_nat_2)
  have 5: "queryValues (destructure obj)
           = (if getProp obj ''title'' \<noteq> JUndefined
              then [JStr (''%'' @ to_string (getProp obj ''title'') @ ''%'')] else [])
             @ (if getProp obj ''minSalary'' \<noteq> JUndefined
                then [getProp obj ''minSalary''] else [])"
    by (simp add: queryValues_def f)
  have 6: "distinct (map fst obj) \<and> distinct (map fst obj') \<and> set obj' = set obj
            \<longrightarrow> findAll q db obj' = findAll q db obj"
    using findAll_reorder [of obj obj' q db] by simp
  have 7: "findAllQuery (destructure obj)
           = selectJobs
             @ (if whereClauses (destructure obj) = [] then []
                else '' WHERE '' @ join '' AND '' (whereClauses (destructure obj)))
             @ '' ORDER BY title''"
    by (simp add: findAllQuery_def whereFragment_def Let_def)
  have 8: "findAll q db obj
           = q db (findAllQuery (destructure obj)) (queryValues (destructure obj))"
    by (simp add: findAll_def Let_def)
  show ?thesis by (intro conjI; fact 1 2 3 4 5 6 7 8)
qed

theorem filter_composition_witness:
  "truthy (getProp [(''minSalary'', JNum 2), (''title'', JStr ''en'')] ''title'')
   \<and> getProp [(''minSalary'', JNum 2), (''title'', JStr ''en'')] ''hasEquity'' = JUndefined
   \<and> whereClauses (destructure [(''minSalary'', JNum 2), (''title'', JStr ''en'')])
     = [''title ILIKE $1'', ''salary >= $2'']
   \<and> queryValues (destructure [(''minSalary'', JNum 2), (''title'', JStr ''en'')])
     = [JStr ''%en%'', JNum 2]
   \<and> whereFragment (destructure [(''minSalary'', JNum 2), (''title'', JStr ''en'')])
     = join '' AND '' [''title ILIKE $1'', ''salary >= $2'']
   \<and> findAll tableQuery [] [(''title'', JStr ''en''), (''minSalary'', JNum 2)]
     = findAll tableQuery [] [(''minSalary'', JNum 2), (''title'', JStr ''en'')]
   \<and> findAllQuery (destructure [(''minSalary'', JNum 2), (''title'', JStr ''en'')])
     = selectJobs @ '' WHERE title ILIKE $1 AND salary >= $2 ORDER BY title''
   \<and> findAll tableQuery [] [(''minSalary'', JNum 2), (''title'', JStr ''en'')]
     = tableQuery []
         (selectJobs @ '' WHERE title ILIKE $1 AND salary >= $2 ORDER BY title'')
         [JStr ''%en%'', JNum 2]"
  using filter_composition
    [where obj = "[(''minSalary'', JNum 2), (''title'', JStr ''en'')]"
       and obj' = "[(''title'', JStr ''en''), (''minSalary'', JNum 2)]"
       and q = tableQuery and db = "[]"]
  by (simp add: getProp_def presentKeys_def string_of_nat_2 insert_commute)

lemma unfiltered_without_where:
  "\<not> containsText (selectJobs @ '' ORDER BY title'') ''WHERE''"
  by (simp add: selectJobs_def eval_nat_numeral)

text \<open>
  C7. For a filter object with none of the keys title, minSalary, hasEquity, the builder
  produces no clause, an empty fragment and an empty parameter list, and the statement
  sent to the store is the SELECT followed directly by the ORDER BY: the text \<open>WHERE\<close>
  does not occur in it.
\<close>

theorem no_recognized_keys:
  assumes "''title'' \<notin> fst ` set obj" and "''minSalary'' \<notin> fst ` set obj"
    and "''hasEquity'' \<notin> fst ` set obj"
  shows "whereClauses (destructure obj) = []
       \<and> whereFragment (destructure obj) = []
       \<and> queryValues (destructure obj) = []
       \<and> findAllQuery (destructure obj) = selectJobs @ '' ORDER BY title''
       \<and> \<not> containsText (findAllQuery (destructure obj)) ''WHERE''
       \<and> findAll q db obj = q db (selectJobs @ '' ORDER BY title'') []"
  using assms unfiltered_without_where
  by (simp add: whereClauses_def whereFragment_def queryValues_def filterClauses_eq
      findAll_def findAllQuery_def destructure_def getProp_absent)

theorem no_recognized_keys_witness:
  "''title'' \<notin> fst ` set [(''name'', JStr ''net'')]
   \<and> ''minSalary'' \<notin> fst ` set [(''name'', JStr ''net'')]
   \<and> ''hasEquity'' \<notin> fst ` set [(''name'', JStr ''net'')]
   \<and> whereFragment (destructure [(''name'', JStr ''net'')]) = []
   \<and> queryValues (destructure [(''name'', JStr ''net'')]) = []
   \<and> \<not> containsText (findAllQuery (destructure [(''name'', JStr ''net'')])) ''WHERE''
   \<and> findAll tableQuery [] [(''name'', JStr ''net'')]
       = tableQuery [] (selectJobs @ '' ORDER BY title'') []"
  using no_recognized_keys [where obj = "[(''name'', JStr ''net'')]" and q = tableQuery
      and db = "[]"] unfiltered_without_where
  by simp

section \<open>Properties of the partial-update builder and of Job.update\<close>

lemma length_setPieces: "length (setPieces jsToSql i dataToUpdate) = length dataToUpdate"
  by (induction dataToUpdate arbitrary: i) auto

lemma setPieces_nth:
  "j < length dataToUpdate \<Longrightarrow>
     setPieces jsToSql i dataToUpdate ! j
       = [CHR 0x22] @ resolveColumn jsToSql (fst (dataToUpdate ! j)) @ [CHR 0x22] @ ''=$''
           @ string_of_nat (i + j)"
proof (induction dataToUpdate arbitrary: i j)
  case Nil
  then show ?case by simp
next
  case (Cons kv rest)
  show ?case
  proof (cases j)
    case 0
    then show ?thesis by (cases kv) simp
  next
    case (Suc j')
    with Cons.prems have "j' < length rest" by simp
    from Cons.IH [OF this, of "Suc i"] Suc show ?thesis by (cases kv) simp
  qed
qed


lemma update_empty: "update q db ttl [] = (db, Inl (BadRequestError []))"
  by (simp add: update_def sqlForPartialUpdate_def)

lemma update_logged:
  "sent (update (logged q) (db, log) ttl dataToUpdate)
     = log @ (if dataToUpdate = [] then []
              else [(updateSql
                       (join '', ''
                          (setPieces [''companyHandle'' \<mapsto> ''company_handle''] 1 dataToUpdate))
                       (''$'' @ string_of_nat (length dataToUpdate + 1)),
                     map snd dataToUpdate @ [ttl])])"
  by (simp add: update_def sqlForPartialUpdate_def logged_def Let_def
      split: prod.splits sum.splits list.splits)

text \<open>
  C2. With an empty field set the builder fails with a BadRequestError, whatever the
  column mapping, and so does \<open>Job.update\<close>, which then sends nothing to the store.
  With a non-empty field set the builder does not fail, and its parameter list is the
  list of the field values as they are.
\<close>

theorem partial_update_failure:
  "is_BadRequest (sqlForPartialUpdate [] jsToSql)
   \<and> (dataToUpdate \<noteq> [] \<longrightarrow>
        (\<exists>frag. sqlForPartialUpdate dataToUpdate jsToSql = Inr frag
                \<and> values frag = map snd dataToUpdate))
   \<and> is_BadRequest (snd (update q db ttl []))
   \<and> fst (update (logged q) (db, log) ttl []) = (db, log)"
  by (simp add: sqlForPartialUpdate_def update_def)

theorem partial_update_failure_witness:
  "is_BadRequest (sqlForPartialUpdate [] [''firstName'' \<mapsto> ''first_name''])
   \<and> [(''salary'', JNull), (''equity'', JStr ''0.5'')] \<noteq> []
   \<and> (\<exists>frag. sqlForPartialUpdate [(''salary'', JNull), (''equity'', JStr ''0.5'')]
                  [''firstName'' \<mapsto> ''first_name''] = Inr frag
              \<and> values frag = [JNull, JStr ''0.5''])
   \<and> is_BadRequest (snd (update tableQuery [] (JStr ''j1'') []))"
  using partial_update_failure
    [where jsToSql = "[''firstName'' \<mapsto> ''first_name'']"
       and dataToUpdate = "[(''salary'', JNull), (''equity'', JStr ''0.5'')]"
       and q = tableQuery and db = "[]" and ttl = "JStr ''j1''" and log = "[]"]
  by simp



section \<open>The placeholders of the statement texts\<close>

lemma digit_char_props:
  assumes "d < 10"
  shows "is_digit (digit_char d)" and "digit_val (digit_char d) = d"
    and "digit_char d \<noteq> CHR 0x22" and "digit_char d \<noteq> CHR ''$''"
proof -
  from assms have "d \<in> {0, 1, 2, 3, 4, 5, 6, 7, 8, 9}" by auto
  then show "is_digit (digit_char d)" and "digit_val (digit_char d) = d"
    and "digit_char d \<noteq> CHR 0x22" and "digit_char d \<noteq> CHR ''$''"
    by (auto simp: digit_char_def is_digit_def digit_val_def)
qed

lemma is_digit_plain: "is_digit c \<Longrightarrow> c \<noteq> CHR 0x22 \<and> c \<noteq> CHR ''$''"
  by (auto simp: is_digit_def)

lemma string_of_nat_digits: "c \<in> set (string_of_nat n) \<Longrightarrow> is_digit c"
proof (induction n arbitrary: c rule: string_of_nat.induct)
  case (1 n)
  show ?case
  proof (cases "n < 10")
    case True
    with "1.prems" show ?thesis
      by (simp add: string_of_nat.simps [of n] digit_char_props)
  next
    case False
    with "1.prems" "1.IH" show ?thesis
      by (auto simp: string_of_nat.simps [of n] digit_char_props)
  qed
qed

lemma string_of_nat_nonempty: "string_of_nat n \<noteq> []"
  by (simp add: string_of_nat.simps [of n])

lemma readNum_string_of_nat:
  "readNum acc (string_of_nat n @ rest)
     = readNum (acc * 10 ^ length (string_of_nat n) + n) rest"
proof (induction n arbitrary: acc rest rule: string_of_nat.induct)
  case (1 n)
  show ?case
  proof (cases "n < 10")
    case True
    then show ?thesis
      by (simp add: string_of_nat.simps [of n] digit_char_props mult.commute)
  next
    case False
    have "readNum acc (string_of_nat n @ rest)
            = readNum acc (string_of_nat (n div 10) @ (digit_char (n mod 10) # rest))"
      using False by (simp add: string_of_nat.simps [of n])
    also have "\<dots> = readNum (acc * 10 ^ length (string_of_nat (n div 10)) + n div 10)
                       (digit_char (n mod 10) # rest)"
      using "1.IH" [OF False] by simp
    also have "\<dots> = readNum (10 * (acc * 10 ^ length (string_of_nat (n div 10)) + n div 10)
                         + n mod 10) rest"
      by (simp add: digit_char_props)
    also have "10 * (acc * 10 ^ length (string_of_nat (n div 10)) + n div 10) + n mod 10
                 = acc * 10 ^ length (string_of_nat n) + n"
      using False by (simp add: string_of_nat.simps [of n] algebra_simps)
    finally show ?thesis .
  qed
qed

lemma readNum_stop: "rest = [] \<or> \<not> is_digit (hd rest) \<Longrightarrow> readNum acc rest = acc"
  by (cases rest) auto

lemma placeholders_plain:
  "c \<noteq> CHR 0x22 \<Longrightarrow> c \<noteq> CHR ''$'' \<Longrightarrow>
     placeholders inQuotes (c # cs) = placeholders inQuotes cs"
  by (simp add: placeholders.simps(2))

lemma placeholders_quote:
  "placeholders inQuotes (CHR 0x22 # cs) = placeholders (\<not> inQuotes) cs"
  by (simp add: placeholders.simps(2))

lemma placeholders_digits:
  "\<forall>c \<in> set ds. is_digit c \<Longrightarrow>
     placeholders inQuotes (ds @ rest) = placeholders inQuotes rest"
  by (induction ds) (auto simp: placeholders.simps(2) dest: is_digit_plain)

lemma placeholders_param:
  assumes "rest = [] \<or> \<not> is_digit (hd rest)"
  shows "placeholders False (CHR ''$'' # string_of_nat n @ rest) = n # placeholders False rest"
proof -
  have d: "is_digit (hd (string_of_nat n @ rest))"
    using string_of_nat_nonempty [of n] string_of_nat_digits [of "hd (string_of_nat n)" n]
    by (cases "string_of_nat n") auto
  have r: "readNum 0 (string_of_nat n @ rest) = n"
    using assms by (simp add: readNum_string_of_nat readNum_stop)
  have p: "placeholders False (string_of_nat n @ rest) = placeholders False rest"
    using string_of_nat_digits by (intro placeholders_digits) blast
  show ?thesis
    using d r p string_of_nat_nonempty [of n] by (simp add: placeholders.simps(2))
qed

lemma placeholders_in_quotes:
  "CHR 0x22 \<notin> set col \<Longrightarrow>
     placeholders True (col @ CHR 0x22 # rest) = placeholders False rest"
  by (induction col) (auto simp: placeholders.simps(2))

lemma placeholders_piece:
  assumes "CHR 0x22 \<notin> set col" and "rest = [] \<or> \<not> is_digit (hd rest)"
  shows "placeholders False (CHR 0x22 # col @ CHR 0x22 # CHR ''='' # CHR ''$'' # string_of_nat n @ rest)
           = n # placeholders False rest"
  using assms
  by (simp add: placeholders_quote placeholders_in_quotes placeholders_plain placeholders_param)

lemma placeholders_setPieces:
  assumes "\<forall>name \<in> fst ` set dataToUpdate. CHR 0x22 \<notin> set (resolveColumn jsToSql name)"
    and "rest = [] \<or> \<not> is_digit (hd rest)"
  shows "placeholders False (join '', '' (setPieces jsToSql i dataToUpdate) @ rest)
           = [i..<i + length dataToUpdate] @ placeholders False rest"
  using assms(1)
proof (induction jsToSql i dataToUpdate rule: setPieces.induct)
  case (1 jsToSql i)
  then show ?case by simp
next
  case (2 jsToSql i name v more)
  then have q: "CHR 0x22 \<notin> set (resolveColumn jsToSql name)"
    and m: "\<forall>name \<in> fst ` set more. CHR 0x22 \<notin> set (resolveColumn jsToSql name)"
    by auto
  show ?case
  proof (cases more)
    case Nil
    then show ?thesis
      using placeholders_piece [OF q assms(2), of i] by simp
  next
    case (Cons kv more')
    obtain name' v' where kv: "kv = (name', v')" by (cases kv)
    have "placeholders False (join '', '' (setPieces jsToSql i ((name, v) # more)) @ rest)
            = placeholders False (CHR 0x22 # resolveColumn jsToSql name @ CHR 0x22 # CHR ''=''
                # CHR ''$'' # string_of_nat i
                @ (CHR '','' # CHR '' '' # join '', '' (setPieces jsToSql (Suc i) more) @ rest))"
      using Cons kv by simp
    also have "\<dots> = i # placeholders False
                 (CHR '','' # CHR '' '' # join '', '' (setPieces jsToSql (Suc i) more) @ rest)"
      by (rule placeholders_piece [OF q]) (simp add: is_digit_def)
    also have "\<dots> = i # placeholders False (join '', '' (setPieces jsToSql (Suc i) more) @ rest)"
      by (simp add: placeholders_plain)
    also have "\<dots> = i # [Suc i..<Suc i + length more] @ placeholders False rest"
      using "2.IH" [OF m] by simp
    also have "\<dots> = [i..<i + length ((name, v) # more)] @ placeholders False rest"
      by (simp add: upt_conv_Cons del: upt_Suc)
    finally show ?thesis .
  qed
qed

lemma placeholders_replicate:
  "c \<noteq> CHR 0x22 \<Longrightarrow> c \<noteq> CHR ''$'' \<Longrightarrow>
     placeholders inQuotes (replicate k c @ rest) = placeholders inQuotes rest"
  by (induction k) (simp_all add: placeholders_plain)

lemma placeholders_updateSql:
  assumes "\<forall>name \<in> fst ` set dataToUpdate. CHR 0x22 \<notin> set (resolveColumn jsToSql name)"
  shows "placeholders False
           (updateSql (join '', '' (setPieces jsToSql 1 dataToUpdate))
              (''$'' @ string_of_nat (length dataToUpdate + 1)))
         = [1..<1 + length dataToUpdate] @ [length dataToUpdate + 1]"
  using assms
  by (simp add: updateSql_def placeholders_plain placeholders_quote placeholders_replicate
      placeholders_setPieces placeholders_param is_digit_def)

lemma placeholders_findAllQuery:
  "placeholders False (findAllQuery f) = [1..<length (queryValues f) + 1]"
  by (simp add: findAllQuery_def whereFragment_def whereClauses_def queryValues_def
      filterClauses_eq selectJobs_def placeholders_plain placeholders_quote
      placeholders_replicate placeholders.simps(2) is_digit_def digit_val_def)

lemma placeholders_whereFragment:
  "placeholders False (whereFragment f) = [1..<length (queryValues f) + 1]"
  by (simp add: whereFragment_def whereClauses_def queryValues_def
      filterClauses_eq placeholders_plain placeholders.simps(2) is_digit_def digit_val_def)

lemma quotableColumns_iff:
  "quotableColumns jsToSql dataToUpdate
     = (\<forall>name \<in> fst ` set dataToUpdate. CHR 0x22 \<notin> set (resolveColumn jsToSql name))"
  by (auto simp: quotableColumns_def list_all_iff)

lemma updateSql_where:
  "updateSql setCols' (''$'' @ k)
     = (''UPDATE jobs '' @ [CHR 0x0A] @ replicate 22 (CHR '' '') @ ''SET '' @ setCols' @ '' ''
          @ [CHR 0x0A] @ replicate 22 (CHR '' ''))
       @ ''WHERE title = $'' @ k
       @ ('' '' @ [CHR 0x0A] @ replicate 22 (CHR '' '') @ ''RETURNING title, '' @ [CHR 0x0A]
          @ replicate 32 (CHR '' '') @ ''salary, '' @ [CHR 0x0A]
          @ replicate 32 (CHR '' '') @ ''equity, '' @ [CHR 0x0A]
          @ replicate 32 (CHR '' '') @ ''company_handle AS '' @ [CHR 0x22] @ ''companyHandle''
          @ [CHR 0x22])"
  by (simp add: updateSql_def)

lemma wellParameterized_setPieces:
  assumes "quotableColumns jsToSql dataToUpdate"
  shows "wellParameterized (join '', '' (setPieces jsToSql 1 dataToUpdate)) (map snd dataToUpdate)"
  using placeholders_setPieces [of dataToUpdate jsToSql "[]" 1] assms
  by (simp add: wellParameterized_def quotableColumns_iff)

lemma wellParameterized_updateSql:
  assumes "quotableColumns jsToSql dataToUpdate"
  shows "wellParameterized
           (updateSql (join '', '' (setPieces jsToSql 1 dataToUpdate))
              (''$'' @ string_of_nat (length dataToUpdate + 1)))
           (map snd dataToUpdate @ [ttl])"
  using placeholders_updateSql [of dataToUpdate jsToSql] assms
  by (simp add: wellParameterized_def quotableColumns_iff)

text \<open>
  C1. For every non-empty field set and every column mapping, the builder
  succeeds; its fragment is made of as many pieces as there are fields, joined by a comma
  and a space; the piece of the field at position \<open>j + 1\<close> is its resolved column
  between double quotes followed by \<open>=$\<close> and the decimal \<open>j + 1\<close>; and the
  parameter at each position is the value of the field at that position. Where no
  resolved column name contains a double quote, the placeholders read from the text of
  the fragment are \<open>$1\<close>, ..., \<open>$n\<close> for \<open>n\<close> fields, so that their count is the
  number of fields. At \<open>{firstName: 'Aliya', age: 32}\<close> with the mapping
  \<open>{firstName: 'first_name'}\<close> the fragment is \<open>"first_name"=$1, "age"=$2\<close> with
  the parameters \<open>['Aliya', 32]\<close>.
\<close>

theorem partial_update_fragment:
  assumes "dataToUpdate \<noteq> []"
  shows "\<exists>frag. sqlForPartialUpdate dataToUpdate jsToSql = Inr frag
           \<and> setCols frag = join '', '' (setPieces jsToSql 1 dataToUpdate)
           \<and> length (setPieces jsToSql 1 dataToUpdate) = length dataToUpdate
           \<and> (\<forall>j < length dataToUpdate.
                 setPieces jsToSql 1 dataToUpdate ! j
                   = [CHR 0x22] @ resolveColumn jsToSql (fst (dataToUpdate ! j)) @ [CHR 0x22]
                       @ ''=$'' @ string_of_nat (j + 1))
           \<and> length (values frag) = length dataToUpdate
           \<and> (\<forall>j < length dataToUpdate. values frag ! j = snd (dataToUpdate ! j))
           \<and> (quotableColumns jsToSql dataToUpdate \<longrightarrow>
                 placeholders False (setCols frag) = [1..<length dataToUpdate + 1]
                 \<and> length (placeholders False (setCols frag)) = length dataToUpdate)"
proof -
  have p: "quotableColumns jsToSql dataToUpdate \<longrightarrow>
        placeholders False (join '', '' (setPieces jsToSql 1 dataToUpdate))
          = [1..<length dataToUpdate + 1]"
    using wellParameterized_setPieces [of jsToSql dataToUpdate]
    by (simp add: wellParameterized_def del: upt_Suc)
  then have c: "quotableColumns jsToSql dataToUpdate \<longrightarrow>
        length (placeholders False (join '', '' (setPieces jsToSql 1 dataToUpdate)))
          = length dataToUpdate"
    by (simp del: upt_Suc)
  show ?thesis
    using assms p c
    by (simp add: sqlForPartialUpdate_def length_setPieces setPieces_nth del: upt_Suc)
qed

theorem partial_update_fragment_witness:
  \<open>[(''firstName'', JStr ''Aliya''), (''age'', JNum 32)] \<noteq> []
   \<and> quotableColumns [''firstName'' \<mapsto> ''first_name'']
         [(''firstName'', JStr ''Aliya''), (''age'', JNum 32)]
   \<and> sqlForPartialUpdate [(''firstName'', JStr ''Aliya''), (''age'', JNum 32)]
         [''firstName'' \<mapsto> ''first_name'']
       = Inr \<lparr>setCols = ''"first_name"=$1, "age"=$2'',
                values = [JStr ''Aliya'', JNum 32]\<rparr>
   \<and> placeholders False ''"first_name"=$1, "age"=$2'' = [1, 2]\<close>
  using partial_update_fragment
    [where dataToUpdate = "[(''firstName'', JStr ''Aliya''), (''age'', JNum 32)]"
       and jsToSql = "[''firstName'' \<mapsto> ''first_name'']"]
  by (simp add: sqlForPartialUpdate_def quotableColumns_def resolveColumn_def
      string_of_nat_1 string_of_nat_2 upt_conv_Cons)

text \<open>
  Without the condition on the column names the count of the placeholders is not the
  number of fields: the field set with the one field named \<open>a"=$1, "b\<close> gives the
  fragment \<open>"a"=$1, "b"=$1\<close>, whose text holds two placeholders for one field and one
  parameter.
\<close>

theorem partial_update_fragment_counterexample:
  \<open>[(''a"=$1, "b'', JNum 7)] \<noteq> []
   \<and> sqlForPartialUpdate [(''a"=$1, "b'', JNum 7)] Map.empty
       = Inr \<lparr>setCols = ''"a"=$1, "b"=$1'', values = [JNum 7]\<rparr>
   \<and> placeholders False ''"a"=$1, "b"=$1'' = [1, 1]
   \<and> length (placeholders False ''"a"=$1, "b"=$1'') \<noteq> length [(''a"=$1, "b'', JNum 7)]\<close>
  by (simp add: sqlForPartialUpdate_def resolveColumn_def string_of_nat_1
      placeholders.simps(2) is_digit_def digit_val_def)

text \<open>
  C8. Every fragment and every statement of the job filter builder has the
  placeholders \<open>$1\<close>, ..., \<open>$n\<close> in this order, \<open>n\<close> being the number of its
  parameters. For every non-empty field set, the fragment of the partial-update builder is
  made of as many pieces as it has parameters, the piece at position \<open>j + 1\<close> ending in
  the placeholder \<open>$(j+1)\<close>; \<open>Job.update\<close> sends one statement, whose text holds
  \<open>WHERE title = $(n+1)\<close> for \<open>n\<close> fields and whose parameters are the field values
  followed by the title. Where no resolved column name contains a double quote, the
  placeholders read from the text of the fragment are \<open>$1\<close>, ..., \<open>$n\<close>, and those
  of the statement of \<open>Job.update\<close> are \<open>$1\<close>, ..., \<open>$(n+1)\<close>.
\<close>

theorem parameterized_fragments:
  "wellParameterized (whereFragment f) (queryValues f)
   \<and> wellParameterized (findAllQuery f) (queryValues f)
   \<and> (dataToUpdate \<noteq> [] \<longrightarrow>
        sqlForPartialUpdate dataToUpdate jsToSql
          = Inr \<lparr>setCols = join '', '' (setPieces jsToSql 1 dataToUpdate),
                  values = map snd dataToUpdate\<rparr>
        \<and> length (setPieces jsToSql 1 dataToUpdate) = length (map snd dataToUpdate)
        \<and> (\<forall>j < length dataToUpdate.
              setPieces jsToSql 1 dataToUpdate ! j
                = [CHR 0x22] @ resolveColumn jsToSql (fst (dataToUpdate ! j)) @ [CHR 0x22]
                    @ ''=$'' @ string_of_nat (j + 1))
        \<and> sent (update (logged q) (db, log) ttl dataToUpdate)
            = log @ [(updateSql
                        (join '', ''
                           (setPieces [''companyHandle'' \<mapsto> ''company_handle''] 1
                              dataToUpdate))
                        (''$'' @ string_of_nat (length dataToUpdate + 1)),
                      map snd dataToUpdate @ [ttl])]
        \<and> (\<exists>pre post.
              updateSql setCols' (''$'' @ string_of_nat (length dataToUpdate + 1))
                = pre @ ''WHERE title = $'' @ string_of_nat (length dataToUpdate + 1) @ post))
   \<and> (dataToUpdate \<noteq> [] \<and> quotableColumns jsToSql dataToUpdate \<longrightarrow>
        wellParameterized (join '', '' (setPieces jsToSql 1 dataToUpdate))
          (map snd dataToUpdate))
   \<and> (dataToUpdate \<noteq> []
        \<and> quotableColumns [''companyHandle'' \<mapsto> ''company_handle''] dataToUpdate \<longrightarrow>
        wellParameterized
          (updateSql
             (join '', ''
                (setPieces [''companyHandle'' \<mapsto> ''company_handle''] 1 dataToUpdate))
             (''$'' @ string_of_nat (length dataToUpdate + 1)))
          (map snd dataToUpdate @ [ttl]))"
proof -
  have a: "wellParameterized (whereFragment f) (queryValues f)"
    by (simp add: wellParameterized_def placeholders_whereFragment)
  have b: "wellParameterized (findAllQuery f) (queryValues f)"
    by (simp add: wellParameterized_def placeholders_findAllQuery)
  have c: "dataToUpdate \<noteq> [] \<longrightarrow>
        sqlForPartialUpdate dataToUpdate jsToSql
          = Inr \<lparr>setCols = join '', '' (setPieces jsToSql 1 dataToUpdate),
                  values = map snd dataToUpdate\<rparr>
        \<and> length (setPieces jsToSql 1 dataToUpdate) = length (map snd dataToUpdate)
        \<and> (\<forall>j < length dataToUpdate.
              setPieces jsToSql 1 dataToUpdate ! j
                = [CHR 0x22] @ resolveColumn jsToSql (fst (dataToUpdate ! j)) @ [CHR 0x22]
                    @ ''=$'' @ string_of_nat (j + 1))"
    by (simp add: sqlForPartialUpdate_def length_setPieces setPieces_nth)
  have d: "dataToUpdate \<noteq> [] \<longrightarrow>
        sent (update (logged q) (db, log) ttl dataToUpdate)
            = log @ [(updateSql
                        (join '', ''
                           (setPieces [''companyHandle'' \<mapsto> ''company_handle''] 1
                              dataToUpdate))
                        (''$'' @ string_of_nat (length dataToUpdate + 1)),
                      map snd dataToUpdate @ [ttl])]"
    by (simp add: update_logged)
  have e: "\<exists>pre post.
              updateSql setCols' (''$'' @ string_of_nat (length dataToUpdate + 1))
                = pre @ ''WHERE title = $'' @ string_of_nat (length dataToUpdate + 1) @ post"
    using updateSql_where [of setCols' "string_of_nat (length dataToUpdate + 1)"] by blast
  have g: "dataToUpdate \<noteq> [] \<and> quotableColumns jsToSql dataToUpdate \<longrightarrow>
        wellParameterized (join '', '' (setPieces jsToSql 1 dataToUpdate))
          (map snd dataToUpdate)"
    using wellParameterized_setPieces by blast
  have h: "dataToUpdate \<noteq> []
        \<and> quotableColumns [''companyHandle'' \<mapsto> ''company_handle''] dataToUpdate \<longrightarrow>
        wellParameterized
          (updateSql
             (join '', ''
                (setPieces [''companyHandle'' \<mapsto> ''company_handle''] 1 dataToUpdate))
             (''$'' @ string_of_nat (length dataToUpdate + 1)))
          (map snd dataToUpdate @ [ttl])"
    using wellParameterized_updateSql by blast
  from c d e have cde: "dataToUpdate \<noteq> [] \<longrightarrow>
        sqlForPartialUpdate dataToUpdate jsToSql
          = Inr \<lparr>setCols = join '', '' (setPieces jsToSql 1 dataToUpdate),
                  values = map snd dataToUpdate\<rparr>
        \<and> length (setPieces jsToSql 1 dataToUpdate) = length (map snd dataToUpdate)
        \<and> (\<forall>j < length dataToUpdate.
              setPieces jsToSql 1 dataToUpdate ! j
                = [CHR 0x22] @ resolveColumn jsToSql (fst (dataToUpdate ! j)) @ [CHR 0x22]
                    @ ''=$'' @ string_of_nat (j + 1))
        \<and> sent (update (logged q) (db, log) ttl dataToUpdate)
            = log @ [(updateSql
                        (join '', ''
                           (setPieces [''companyHandle'' \<mapsto> ''company_handle''] 1
                              dataToUpdate))
                        (''$'' @ string_of_nat (length dataToUpdate + 1)),
                      map snd dataToUpdate @ [ttl])]
        \<and> (\<exists>pre post.
              updateSql setCols' (''$'' @ string_of_nat (length dataToUpdate + 1))
                = pre @ ''WHERE title = $'' @ string_of_nat (length dataToUpdate + 1) @ post)"
    by (intro impI conjI) (erule (1) mp [THEN conjunct1] | simp)+
  show ?thesis by (intro conjI; fact a b cde g h)
qed

theorem parameterized_fragments_witness:
  \<open>placeholders False
       (findAllQuery \<lparr>title = JStr ''en'', minSalary = JNum 2, hasEquity = JBool True\<rparr>)
     = [1, 2]
   \<and> queryValues \<lparr>title = JStr ''en'', minSalary = JNum 2, hasEquity = JBool True\<rparr>
     = [JStr ''%en%'', JNum 2]
   \<and> [(''salary'', JNum 10), (''equity'', JStr ''0.5'')] \<noteq> []
   \<and> quotableColumns [''companyHandle'' \<mapsto> ''company_handle'']
         [(''salary'', JNum 10), (''equity'', JStr ''0.5'')]
   \<and> sqlForPartialUpdate [(''salary'', JNum 10), (''equity'', JStr ''0.5'')]
         [''companyHandle'' \<mapsto> ''company_handle'']
       = Inr \<lparr>setCols = ''"salary"=$1, "equity"=$2'', values = [JNum 10, JStr ''0.5'']\<rparr>
   \<and> sent (update (logged tableQuery) ([], []) (JStr ''j1'')
                  [(''salary'', JNum 10), (''equity'', JStr ''0.5'')])
       = [(updateSql ''"salary"=$1, "equity"=$2'' ''$3'',
           [JNum 10, JStr ''0.5'', JStr ''j1''])]
   \<and> placeholders False (updateSql ''"salary"=$1, "equity"=$2'' ''$3'') = [1, 2, 3]\<close>
  using parameterized_fragments
    [where f = "\<lparr>title = JStr ''en'', minSalary = JNum 2, hasEquity = JBool True\<rparr>"
       and dataToUpdate = "[(''salary'', JNum 10), (''equity'', JStr ''0.5'')]"
       and jsToSql = "[''companyHandle'' \<mapsto> ''company_handle'']"
       and q = tableQuery and db = "[]" and log = "[]" and ttl = "JStr ''j1''"
       and setCols' = "[]"]
  by (simp add: wellParameterized_def quotableColumns_def resolveColumn_def
      queryValues_def filterClauses_eq string_of_nat_3
      string_of_nat_1 string_of_nat_2 upt_conv_Cons)

text \<open>
  Without the condition on the column names the invariant fails: for the one field
  named \<open>a"=$7, "b\<close> the fragment is \<open>"a"=$7, "b"=$1\<close> with one parameter, and the
  statement that \<open>Job.update\<close> sends has the placeholders 7, 1, 2 for two parameters.
\<close>

theorem parameterized_fragments_counterexample:
  \<open>sqlForPartialUpdate [(''a"=$7, "b'', JNum 1)] [''companyHandle'' \<mapsto> ''company_handle'']
     = Inr \<lparr>setCols = ''"a"=$7, "b"=$1'', values = [JNum 1]\<rparr>
   \<and> placeholders False ''"a"=$7, "b"=$1'' = [7, 1]
   \<and> \<not> wellParameterized ''"a"=$7, "b"=$1'' [JNum 1]
   \<and> sent (update (logged tableQuery) ([], []) (JStr ''j1'') [(''a"=$7, "b'', JNum 1)])
       = [(updateSql ''"a"=$7, "b"=$1'' ''$2'', [JNum 1, JStr ''j1''])]
   \<and> placeholders False (updateSql ''"a"=$7, "b"=$1'' ''$2'') = [7, 1, 2]
   \<and> \<not> wellParameterized (updateSql ''"a"=$7, "b"=$1'' ''$2'') [JNum 1, JStr ''j1'']\<close>
  by (simp add: sqlForPartialUpdate_def resolveColumn_def update_logged updateSql_def
      wellParameterized_def string_of_nat_1 string_of_nat_2 placeholders.simps(2)
      placeholders_replicate is_digit_def digit_val_def upt_conv_Cons)

section \<open>Properties of Job.create\<close>







end
